theory Spec2Isabelle
  imports Main
begin

section \<open>The EditableCommit component (src/client/src/components/EditableCommit.js)\<close>

text \<open>
  The component reads a commit object through \<open>this.props.commit\<close>, shows its ID,
  author and date as static text, shows its message in a textarea, and on every edit of
  the textarea writes the new text into the commit object and calls
  \<open>this.props.onChange\<close> with that object.

  JavaScript passes objects by reference and the handler mutates the object it was given,
  so objects live in an explicit store and a commit is named by its address.
\<close>

subsection \<open>Values, objects and the store\<close>

text \<open>
  A field of a commit holds a string, or is absent (reading it yields \<open>undefined\<close>), or
  holds \<open>null\<close>. Strings are character lists; the component only concatenates them and
  tests them for emptiness.
\<close>

datatype jsval = Undefined | Null | Str string

record commit =
  node :: jsval
  author :: jsval
  author_email :: jsval
  date :: jsval
  message :: jsval

type_synonym ref = nat

text \<open>Every reference of a running program denotes an object, so the store is total.\<close>

type_synonym heap = "ref \<Rightarrow> commit"

text \<open>
  A change handler supplied by the parent receives the commit's reference and may do
  anything to the store.
\<close>

type_synonym callback = "ref \<Rightarrow> heap \<Rightarrow> heap"

text \<open>
  The props of the component. Either prop may be missing (\<open>undefined\<close>), the source
  declares no prop types.
\<close>

record props =
  commit :: "ref option"
  onChange :: "callback option"

text \<open>The change event of the textarea: \<open>e.target.value\<close> is the text now in the field.\<close>

record event =
  target_value :: string

text \<open>
  The world the handler runs in: the store, and the record of every invocation of
  \<open>this.props.onChange\<close> made so far, each with its argument and the store as it was
  when the callback was entered.
\<close>

record world =
  heap :: heap
  calls :: "(ref \<times> heap) list"

datatype error = TypeError

subsection \<open>The JavaScript primitives the component uses\<close>

text \<open>Truthiness, as tested by \<open>if (x)\<close> and \<open>!x\<close>.\<close>

fun truthy :: "jsval \<Rightarrow> bool" where
  "truthy Undefined = False"
| "truthy Null = False"
| "truthy (Str s) = (s \<noteq> [])"

text \<open>The conversion to a string that \<open>+\<close> applies to an operand beside a string.\<close>

fun to_string :: "jsval \<Rightarrow> string" where
  "to_string Undefined = ''undefined''"
| "to_string Null = ''null''"
| "to_string (Str s) = s"

text \<open>
  \<open>Array.prototype.join\<close>: an element that is \<open>undefined\<close> or \<open>null\<close> contributes the
  empty string, the separator stands between neighbours.
\<close>

fun join_elem :: "jsval \<Rightarrow> string" where
  "join_elem Undefined = []"
| "join_elem Null = []"
| "join_elem (Str s) = s"

fun join :: "jsval list \<Rightarrow> string \<Rightarrow> string" where
  "join [] sep = []"
| "join [x] sep = join_elem x"
| "join (x # y # ys) sep = join_elem x @ sep @ join (y # ys) sep"

subsection \<open>The rendered tree\<close>

text \<open>
  A rendered element has a tag, attributes and children; a child is an element or an
  embedded expression \<open>{v}\<close>. An attribute is a string literal, an embedded value, or the
  component's own change handler.
\<close>

datatype attr = Lit string | Val jsval | HandleChangeMessage

datatype element =
  Tag string "(string \<times> attr) list" "element list"
| Expr jsval

definition UNKNOWN :: string where
  "UNKNOWN = ''<unknown>''"

definition renderLabel :: "jsval \<Rightarrow> element" where
  "renderLabel text = Tag ''label'' [(''className'', Lit ''control-label col-sm-1'')] [Expr text]"

definition renderStatic :: "element \<Rightarrow> element" where
  "renderStatic text = Tag ''p'' [(''className'', Lit ''form-control-static col-sm-11'')] [text]"

text \<open>
  \<open>render\<close>. Reading a property of \<open>this.props.commit\<close> when the prop is missing raises
  a TypeError; reading a property of an object never raises. The variable \<open>author\<close> of
  the source is first an array and then a string: \<open>author0\<close> and \<open>author1\<close> are the array
  before and after the conditional push, \<open>author2\<close> the joined string, \<open>author3\<close> the
  string after the placeholder test.
\<close>

definition render :: "props \<Rightarrow> heap \<Rightarrow> error + element" where
  "render this h =
     (case commit this of
        None \<Rightarrow> Inl TypeError
      | Some r \<Rightarrow>
          (let c = h r;
               author0 = [author c];
               author1 = (if truthy (author_email c)
                          then author0 @ [Str (''<'' @ to_string (author_email c) @ ''>'')]
                          else author0);
               author2 = join author1 '' '';
               author3 = (if author2 = [] then UNKNOWN else author2);
               date0 = date c;
               date1 = (if \<not> truthy date0 then Str UNKNOWN else date0)
           in Inr (Tag ''form'' [(''role'', Lit ''form-horizontal'')]
                [Tag ''div'' [(''className'', Lit ''form-group'')]
                   [renderLabel (Str ''ID''),
                    renderStatic (Tag ''code'' [] [Expr (node c)])],
                 Tag ''div'' [(''className'', Lit ''form-group'')]
                   [renderLabel (Str ''Author''),
                    renderStatic (Expr (Str author3))],
                 Tag ''div'' [(''className'', Lit ''form-group'')]
                   [renderLabel (Str ''Date''),
                    renderStatic (Expr date1)],
                 Tag ''div'' [(''className'', Lit ''form-group clearfix'')]
                   [renderLabel (Str ''Message''),
                    Tag ''div'' [(''className'', Lit ''col-sm-11'')]
                      [Tag ''textarea''
                         [(''className'', Lit ''form-control''),
                          (''rows'', Lit ''5''),
                          (''value'', Val (message (h r))),
                          (''onChange'', HandleChangeMessage)] []]]])))"

subsection \<open>The change handler\<close>

text \<open>
  Calling \<open>this.props.onChange(commit)\<close>: the call is recorded with its argument and the
  store at entry, then the callback runs on the store.
\<close>

definition invoke :: "callback \<Rightarrow> ref \<Rightarrow> world \<Rightarrow> world" where
  "invoke f r w = \<lparr>heap = f r (heap w), calls = calls w @ [(r, heap w)]\<rparr>"

text \<open>
  \<open>handleChangeMessage\<close>. The assignment to \<open>commit.message\<close> raises a TypeError when
  the commit prop is missing; the call raises one when the onChange prop is missing, and
  then the assignment has already happened. The result is the outcome together with the
  world the handler leaves behind.
\<close>

definition handleChangeMessage :: "props \<Rightarrow> event \<Rightarrow> world \<Rightarrow> (error + unit) \<times> world" where
  "handleChangeMessage this e w =
     (let message' = target_value e in
      case commit this of
        None \<Rightarrow> (Inl TypeError, w)
      | Some r \<Rightarrow>
          (let w1 = w\<lparr>heap := (heap w)(r := (heap w r)\<lparr>message := Str message'\<rparr>)\<rparr> in
           case onChange this of
             None \<Rightarrow> (Inl TypeError, w1)
           | Some f \<Rightarrow> (Inr (), invoke f r w1)))"

subsection \<open>What the rendered form displays\<close>

text \<open>Children and attributes of an element, and the element at a path of child indices.\<close>

fun children :: "element \<Rightarrow> element list" where
  "children (Tag t as cs) = cs"
| "children (Expr v) = []"

fun attrs :: "element \<Rightarrow> (string \<times> attr) list" where
  "attrs (Tag t as cs) = as"
| "attrs (Expr v) = []"

fun child_at :: "element \<Rightarrow> nat list \<Rightarrow> element option" where
  "child_at el [] = Some el"
| "child_at el (i # is) =
     (if i < length (children el) then child_at (children el ! i) is else None)"

text \<open>
  The four values the form shows: the content of the \<open>code\<close> element of the first group,
  the content of the static paragraph of the second and of the third group, and the
  \<open>value\<close> attribute of the textarea of the fourth.
\<close>

definition displayed_id :: "element \<Rightarrow> element option" where
  "displayed_id v = child_at v [0, 1, 0, 0]"

definition displayed_author :: "element \<Rightarrow> element option" where
  "displayed_author v = child_at v [1, 1, 0]"

definition displayed_date :: "element \<Rightarrow> element option" where
  "displayed_date v = child_at v [2, 1, 0]"

definition textarea_value :: "element \<Rightarrow> attr option" where
  "textarea_value v =
     (case child_at v [3, 1, 0] of
        None \<Rightarrow> None
      | Some ta \<Rightarrow> map_of (attrs ta) ''value'')"


section \<open>Properties\<close>

lemmas view_defs =
  displayed_id_def displayed_author_def displayed_date_def textarea_value_def
  renderLabel_def renderStatic_def

subsection \<open>The change handler\<close>

text \<open>
  C1. Given a commit and a change handler, an edit event carrying any text (the empty
  text included) makes the handler return normally, having called \<open>onChange\<close> exactly
  once: the record of calls grows by one entry. The argument of that call is the
  reference \<open>r\<close> the component was given, and in the store the callback is entered with,
  the message of the object at \<open>r\<close> is the new text. The store afterwards is whatever the
  callback made of that store.
\<close>

theorem handleChangeMessage_sets_message_and_calls_onChange_once:
  assumes "commit this = Some r" and "onChange this = Some f"
  shows "\<exists>h'. handleChangeMessage this e w =
                 (Inr (), \<lparr>heap = f r h', calls = calls w @ [(r, h')]\<rparr>) \<and>
              message (h' r) = Str (target_value e)"
  using assms by (simp add: handleChangeMessage_def Let_def invoke_def)

theorem handleChangeMessage_sets_message_and_calls_onChange_once_witness:
  "\<exists>h'. handleChangeMessage
            \<lparr>commit = Some 0, onChange = Some (\<lambda>r h. h)\<rparr>
            \<lparr>target_value = []\<rparr>
            \<lparr>heap = (\<lambda>_. \<lparr>node = Str ''abc123'', author = Str ''Ann'', author_email = Str ''ann@example.org'',
          date = Str ''2014-05-01'', message = Str ''wip''\<rparr>), calls = []\<rparr> =
          (Inr (), \<lparr>heap = h', calls = [(0, h')]\<rparr>) \<and>
        message (h' 0) = Str []"
  using handleChangeMessage_sets_message_and_calls_onChange_once
    [of "\<lparr>commit = Some 0, onChange = Some (\<lambda>r h. h)\<rparr>" 0 "\<lambda>r h. h"
        "\<lparr>target_value = []\<rparr>"
        "\<lparr>heap = (\<lambda>_. \<lparr>node = Str ''abc123'', author = Str ''Ann'', author_email = Str ''ann@example.org'',
          date = Str ''2014-05-01'', message = Str ''wip''\<rparr>), calls = []\<rparr>"]
  by simp

text \<open>
  C2. The store the callback is entered with agrees with the store before the edit on the
  node, author, author_email and date of the commit, and on every other object.
\<close>

theorem handleChangeMessage_writes_only_message:
  assumes "commit this = Some r" and "onChange this = Some f"
  shows "\<exists>h'. snd (handleChangeMessage this e w) =
                 \<lparr>heap = f r h', calls = calls w @ [(r, h')]\<rparr> \<and>
              node (h' r) = node (heap w r) \<and>
              author (h' r) = author (heap w r) \<and>
              author_email (h' r) = author_email (heap w r) \<and>
              date (h' r) = date (heap w r) \<and>
              (\<forall>r'. r' \<noteq> r \<longrightarrow> h' r' = heap w r')"
  using assms by (simp add: handleChangeMessage_def Let_def invoke_def)

theorem handleChangeMessage_writes_only_message_witness:
  "\<exists>h'. snd (handleChangeMessage
            \<lparr>commit = Some 0, onChange = Some (\<lambda>r h. h)\<rparr>
            \<lparr>target_value = ''fix bug''\<rparr>
            \<lparr>heap = (\<lambda>_. \<lparr>node = Str ''abc123'', author = Str ''Ann'', author_email = Str ''ann@example.org'',
          date = Str ''2014-05-01'', message = Str ''wip''\<rparr>), calls = []\<rparr>) =
          \<lparr>heap = h', calls = [(0, h')]\<rparr> \<and>
        node (h' 0) = Str ''abc123'' \<and>
        author (h' 0) = Str ''Ann'' \<and>
        author_email (h' 0) = Str ''ann@example.org'' \<and>
        date (h' 0) = Str ''2014-05-01'' \<and>
        message (h' 1) = Str ''wip''"
  using handleChangeMessage_writes_only_message
    [of "\<lparr>commit = Some 0, onChange = Some (\<lambda>r h. h)\<rparr>" 0 "\<lambda>r h. h"
        "\<lparr>target_value = ''fix bug''\<rparr>"
        "\<lparr>heap = (\<lambda>_. \<lparr>node = Str ''abc123'', author = Str ''Ann'', author_email = Str ''ann@example.org'',
          date = Str ''2014-05-01'', message = Str ''wip''\<rparr>), calls = []\<rparr>"]
  by auto

subsection \<open>The author line\<close>

text \<open>
  C3. With a non-empty author and a non-empty author_email, the form shows the author, a
  space, and the email in angle brackets.
\<close>

theorem render_author_with_email:
  assumes "commit this = Some r"
    and "author (h r) = Str a" and "a \<noteq> []"
    and "author_email (h r) = Str m" and "m \<noteq> []"
  shows "\<exists>v. render this h = Inr v \<and>
           displayed_author v = Some (Expr (Str (a @ '' <'' @ m @ ''>'')))"
  using assms by (simp add: render_def Let_def view_defs)

theorem render_author_with_email_witness:
  "\<exists>v. render \<lparr>commit = Some 0, onChange = None\<rparr> (\<lambda>_. \<lparr>node = Str ''abc123'', author = Str ''Ann'', author_email = Str ''ann@example.org'',
          date = Str ''2014-05-01'', message = Str ''wip''\<rparr>) = Inr v \<and>
        displayed_author v = Some (Expr (Str ''Ann <ann@example.org>''))"
  using render_author_with_email
    [of "\<lparr>commit = Some 0, onChange = None\<rparr>" 0 "\<lambda>_. \<lparr>node = Str ''abc123'', author = Str ''Ann'', author_email = Str ''ann@example.org'',
          date = Str ''2014-05-01'', message = Str ''wip''\<rparr>" "''Ann''" "''ann@example.org''"]
  by simp

text \<open>
  C4. With an empty author and an empty author_email, the form shows the placeholder
  \<open><unknown>\<close> as the author.
\<close>

theorem render_author_both_empty:
  assumes "commit this = Some r"
    and "author (h r) = Str []" and "author_email (h r) = Str []"
  shows "\<exists>v. render this h = Inr v \<and>
           displayed_author v = Some (Expr (Str ''<unknown>''))"
  using assms by (simp add: render_def Let_def view_defs UNKNOWN_def)

theorem render_author_both_empty_witness:
  "\<exists>v. render \<lparr>commit = Some 0, onChange = None\<rparr> (\<lambda>_. \<lparr>node = Str ''abc123'', author = Str [], author_email = Str [],
          date = Str ''2014-05-01'', message = Str ''wip''\<rparr>) = Inr v \<and>
        displayed_author v = Some (Expr (Str ''<unknown>''))"
  using render_author_both_empty
    [of "\<lparr>commit = Some 0, onChange = None\<rparr>" 0 "\<lambda>_. \<lparr>node = Str ''abc123'', author = Str [], author_email = Str [],
          date = Str ''2014-05-01'', message = Str ''wip''\<rparr>"]
  by simp

text \<open>
  C5. With an author that is empty or absent and a non-empty author_email, the form shows
  a space followed by the email in angle brackets; this is not the placeholder.
\<close>

theorem render_author_email_only:
  assumes "commit this = Some r"
    and "\<not> truthy (author (h r))"
    and "author_email (h r) = Str m" and "m \<noteq> []"
  shows "\<exists>v. render this h = Inr v \<and>
           displayed_author v = Some (Expr (Str ('' <'' @ m @ ''>''))) \<and>
           displayed_author v \<noteq> Some (Expr (Str ''<unknown>''))"
  using assms
  by (cases "author (h r)") (simp_all add: render_def Let_def view_defs)

theorem render_author_email_only_witness:
  "\<exists>v. render \<lparr>commit = Some 0, onChange = None\<rparr> (\<lambda>_. \<lparr>node = Str ''abc123'', author = Undefined, author_email = Str ''ann@example.org'',
          date = Str ''2014-05-01'', message = Str ''wip''\<rparr>) = Inr v \<and>
        displayed_author v = Some (Expr (Str '' <ann@example.org>'')) \<and>
        displayed_author v \<noteq> Some (Expr (Str ''<unknown>''))"
  using render_author_email_only
    [of "\<lparr>commit = Some 0, onChange = None\<rparr>" 0 "\<lambda>_. \<lparr>node = Str ''abc123'', author = Undefined, author_email = Str ''ann@example.org'',
          date = Str ''2014-05-01'', message = Str ''wip''\<rparr>" "''ann@example.org''"]
  by simp

text \<open>
  C6. With a non-empty author and an empty author_email, the form shows the author and
  nothing more.
\<close>

theorem render_author_without_email:
  assumes "commit this = Some r"
    and "author (h r) = Str a" and "a \<noteq> []"
    and "author_email (h r) = Str []"
  shows "\<exists>v. render this h = Inr v \<and> displayed_author v = Some (Expr (Str a))"
  using assms by (simp add: render_def Let_def view_defs)

theorem render_author_without_email_witness:
  "\<exists>v. render \<lparr>commit = Some 0, onChange = None\<rparr> (\<lambda>_. \<lparr>node = Str ''abc123'', author = Str ''Ann'', author_email = Str [],
          date = Str ''2014-05-01'', message = Str ''wip''\<rparr>) = Inr v \<and>
        displayed_author v = Some (Expr (Str ''Ann''))"
  using render_author_without_email
    [of "\<lparr>commit = Some 0, onChange = None\<rparr>" 0 "\<lambda>_. \<lparr>node = Str ''abc123'', author = Str ''Ann'', author_email = Str [],
          date = Str ''2014-05-01'', message = Str ''wip''\<rparr>" "''Ann''"]
  by simp

subsection \<open>The date, the ID and the message\<close>

text \<open>
  C7. When the date is empty or absent the form shows the placeholder \<open><unknown>\<close> as
  the date, and otherwise it shows the date field itself.
\<close>

theorem render_date:
  assumes "commit this = Some r"
  shows "\<exists>v. render this h = Inr v \<and>
           (\<not> truthy (date (h r)) \<longrightarrow>
              displayed_date v = Some (Expr (Str ''<unknown>''))) \<and>
           (truthy (date (h r)) \<longrightarrow> displayed_date v = Some (Expr (date (h r))))"
  using assms by (simp add: render_def Let_def view_defs UNKNOWN_def)

theorem render_date_witness:
  "(\<exists>v. render \<lparr>commit = Some 0, onChange = None\<rparr> (\<lambda>_. \<lparr>node = Str ''abc123'', author = Str ''Ann'', author_email = Str ''ann@example.org'',
          date = Str ''2014-05-01'', message = Str ''wip''\<rparr>) = Inr v \<and>
         displayed_date v = Some (Expr (Str ''2014-05-01''))) \<and>
   (\<exists>v. render \<lparr>commit = Some 0, onChange = None\<rparr> (\<lambda>_. \<lparr>node = Str ''abc123'', author = Str ''Ann'', author_email = Str ''ann@example.org'',
          date = Undefined, message = Str ''wip''\<rparr>) = Inr v \<and>
         displayed_date v = Some (Expr (Str ''<unknown>'')))"
  using
    render_date [of "\<lparr>commit = Some 0, onChange = None\<rparr>" 0 "\<lambda>_. \<lparr>node = Str ''abc123'', author = Str ''Ann'', author_email = Str ''ann@example.org'',
          date = Str ''2014-05-01'', message = Str ''wip''\<rparr>"]
    render_date [of "\<lparr>commit = Some 0, onChange = None\<rparr>" 0 "\<lambda>_. \<lparr>node = Str ''abc123'', author = Str ''Ann'', author_email = Str ''ann@example.org'',
          date = Undefined, message = Str ''wip''\<rparr>"]
  by simp

text \<open>
  C8. The form shows the node field itself as the ID, whatever the other fields hold and
  whatever the node holds; an empty node is shown empty, not as the placeholder.
\<close>

theorem render_id_is_node:
  assumes "commit this = Some r"
  shows "\<exists>v. render this h = Inr v \<and> displayed_id v = Some (Expr (node (h r)))"
  using assms by (simp add: render_def Let_def view_defs)

theorem render_id_is_node_witness:
  "(\<exists>v. render \<lparr>commit = Some 0, onChange = None\<rparr> (\<lambda>_. \<lparr>node = Str ''abc123'', author = Str ''Ann'', author_email = Str ''ann@example.org'',
          date = Str ''2014-05-01'', message = Str ''wip''\<rparr>) = Inr v \<and>
         displayed_id v = Some (Expr (Str ''abc123''))) \<and>
   (\<exists>v. render \<lparr>commit = Some 0, onChange = None\<rparr> (\<lambda>_. \<lparr>node = Str [], author = Str ''Ann'', author_email = Str ''ann@example.org'',
          date = Str ''2014-05-01'', message = Str ''wip''\<rparr>) = Inr v \<and>
         displayed_id v = Some (Expr (Str [])))"
  using
    render_id_is_node [of "\<lparr>commit = Some 0, onChange = None\<rparr>" 0 "\<lambda>_. \<lparr>node = Str ''abc123'', author = Str ''Ann'', author_email = Str ''ann@example.org'',
          date = Str ''2014-05-01'', message = Str ''wip''\<rparr>"]
    render_id_is_node [of "\<lparr>commit = Some 0, onChange = None\<rparr>" 0 "\<lambda>_. \<lparr>node = Str [], author = Str ''Ann'', author_email = Str ''ann@example.org'',
          date = Str ''2014-05-01'', message = Str ''wip''\<rparr>"]
  by simp

subsection \<open>Rendering as a whole\<close>

text \<open>
  C9. Given a commit, rendering returns a form and raises nothing, whatever the fields of
  the commit hold (strings, empty strings, \<open>null\<close>, or nothing). When neither author nor
  author_email holds text the author shown is the placeholder, when the date holds no text
  the date shown is the placeholder, and the textarea is given the message field as it is.
\<close>

theorem render_succeeds:
  assumes "commit this = Some r"
  shows "\<exists>v. render this h = Inr v \<and>
           (\<not> truthy (author (h r)) \<and> \<not> truthy (author_email (h r)) \<longrightarrow>
              displayed_author v = Some (Expr (Str UNKNOWN))) \<and>
           (\<not> truthy (date (h r)) \<longrightarrow> displayed_date v = Some (Expr (Str UNKNOWN))) \<and>
           textarea_value v = Some (Val (message (h r)))"
  using assms
  by (cases "author (h r)") (simp_all add: render_def Let_def view_defs)

theorem render_succeeds_witness:
  "\<exists>v. render \<lparr>commit = Some 0, onChange = None\<rparr> (\<lambda>_. \<lparr>node = Str ''abc123'', author = Undefined, author_email = Undefined,
          date = Undefined, message = Undefined\<rparr>) = Inr v \<and>
        displayed_author v = Some (Expr (Str UNKNOWN)) \<and>
        displayed_date v = Some (Expr (Str UNKNOWN)) \<and>
        textarea_value v = Some (Val Undefined)"
  using render_succeeds [of "\<lparr>commit = Some 0, onChange = None\<rparr>" 0 "\<lambda>_. \<lparr>node = Str ''abc123'', author = Undefined, author_email = Undefined,
          date = Undefined, message = Undefined\<rparr>"]
  by simp

text \<open>
  C10. Two renders whose commits are equal records show the same ID, author, date and
  message, whatever the references, the rest of the two stores and the other props are.
\<close>

theorem render_depends_only_on_commit:
  assumes "commit p1 = Some r1" and "commit p2 = Some r2" and "h1 r1 = h2 r2"
  shows "\<exists>v1 v2. render p1 h1 = Inr v1 \<and> render p2 h2 = Inr v2 \<and>
           displayed_id v1 = displayed_id v2 \<and>
           displayed_author v1 = displayed_author v2 \<and>
           displayed_date v1 = displayed_date v2 \<and>
           textarea_value v1 = textarea_value v2"
  using assms by (simp add: render_def Let_def view_defs)

theorem render_depends_only_on_commit_witness:
  "\<exists>v1 v2.
     render \<lparr>commit = Some 0, onChange = None\<rparr> (\<lambda>_. \<lparr>node = Str ''abc123'', author = Str ''Ann'', author_email = Str ''ann@example.org'',
          date = Str ''2014-05-01'', message = Str ''wip''\<rparr>) = Inr v1 \<and>
     render \<lparr>commit = Some 1, onChange = Some (\<lambda>r h. h)\<rparr>
       (\<lambda>n. if n = 1 then \<lparr>node = Str ''abc123'', author = Str ''Ann'', author_email = Str ''ann@example.org'',
          date = Str ''2014-05-01'', message = Str ''wip''\<rparr> else \<lparr>node = Str ''abc123'', author = Undefined, author_email = Undefined,
          date = Undefined, message = Undefined\<rparr>) = Inr v2 \<and>
     displayed_id v1 = displayed_id v2 \<and>
     displayed_author v1 = displayed_author v2 \<and>
     displayed_date v1 = displayed_date v2 \<and>
     textarea_value v1 = textarea_value v2"
  using render_depends_only_on_commit
    [of "\<lparr>commit = Some 0, onChange = None\<rparr>" 0
        "\<lparr>commit = Some 1, onChange = Some (\<lambda>r h. h)\<rparr>" 1
        "\<lambda>_. \<lparr>node = Str ''abc123'', author = Str ''Ann'', author_email = Str ''ann@example.org'',
          date = Str ''2014-05-01'', message = Str ''wip''\<rparr>" "\<lambda>n. if n = 1 then \<lparr>node = Str ''abc123'', author = Str ''Ann'', author_email = Str ''ann@example.org'',
          date = Str ''2014-05-01'', message = Str ''wip''\<rparr> else \<lparr>node = Str ''abc123'', author = Undefined, author_email = Undefined,
          date = Undefined, message = Undefined\<rparr>"]
  by simp

end
